theory Spec2Isabelle
  imports Main "HOL-Library.Word"
begin

section \<open>Track routing core of the SFU: data model\<close>

text \<open>
  The development follows \<^verbatim>\<open>track.go\<close> of package \<^verbatim>\<open>sfu\<close> (the current revision, with
  \<^verbatim>\<open>Track\<close>, \<^verbatim>\<open>SimulcastTrack\<close> and \<^verbatim>\<open>trackList\<close>). Go pointers that may be nil are
  \<open>option\<close> values, structs are records, methods are functions that take the receiver
  first and return the updated receiver where the method mutates it. Mutexes are left
  out: every method body is taken as one atomic step. The logger is an external
  collaborator; calls to it have no effect on the modelled state.
\<close>

subsection \<open>Quality levels and RIDs\<close>

text \<open>
  Modelled from the spec: the declaration of \<^verbatim>\<open>QualityLevel\<close> is not in the file. The
  code names \<^verbatim>\<open>QualityHigh\<close>, \<^verbatim>\<open>QualityMid\<close> and \<^verbatim>\<open>QualityLow\<close> and has
  \<^verbatim>\<open>default\<close> branches for every other value of the type, which \<open>QualityOther\<close> stands for.
\<close>

datatype QualityLevel = QualityHigh | QualityMid | QualityLow | QualityOther nat

definition RIDToQuality :: "string \<Rightarrow> QualityLevel" where
  "RIDToQuality RID =
     (if RID = ''high'' then QualityHigh
      else if RID = ''mid'' then QualityMid
      else QualityLow)"

subsection \<open>Codec descriptors and inbound encodings\<close>

datatype RTPCodecType = RTPCodecTypeUnknown | RTPCodecTypeAudio | RTPCodecTypeVideo

record RTPCodecParameters =
  MimeType :: string
  PayloadType :: "8 word"

text \<open>
  Modelled from the spec: the constant \<^verbatim>\<open>webrtc.MimeTypeVP9\<close> belongs to the WebRTC
  library; it is the MIME type of the VP9 codec.
\<close>

definition MimeTypeVP9 :: string where
  "MimeTypeVP9 = ''video/VP9''"

text \<open>
  \<^verbatim>\<open>IRemoteTrack\<close> is the interface of the transport's inbound stream; the record holds
  what its getters return.
\<close>

record IRemoteTrack =
  irt_ID :: string
  irt_Msid :: string
  irt_StreamID :: string
  irt_Kind :: RTPCodecType
  irt_Codec :: RTPCodecParameters
  irt_RID :: string
  irt_SSRC :: "32 word"
  irt_IsRelay :: bool

text \<open>
  Modelled from the spec: the struct \<^verbatim>\<open>remoteTrack\<close> and its constructor
  \<^verbatim>\<open>newRemoteTrack\<close> are not in the file. A remote track wraps one inbound encoding
  (\<open>track\<close>); \<^verbatim>\<open>Track()\<close> returns that encoding, \<^verbatim>\<open>IsRelay()\<close> says whether it came from
  another SFU, and \<^verbatim>\<open>sendPLI()\<close> asks for a Picture Loss Indication on it. The model
  counts the calls of \<^verbatim>\<open>sendPLI\<close> in \<open>pliRequests\<close>.
\<close>

record remoteTrack =
  track :: IRemoteTrack
  pliRequests :: nat

definition newRemoteTrack :: "IRemoteTrack \<Rightarrow> remoteTrack" where
  "newRemoteTrack tr = \<lparr>track = tr, pliRequests = 0\<rparr>"

definition remoteTrack_IsRelay :: "remoteTrack \<Rightarrow> bool" where
  "remoteTrack_IsRelay rt = irt_IsRelay (track rt)"

definition remoteTrack_sendPLI :: "remoteTrack \<Rightarrow> remoteTrack" where
  "remoteTrack_sendPLI rt = rt\<lparr>pliRequests := Suc (pliRequests rt)\<rparr>"

subsection \<open>Clients and client tracks\<close>

record Client =
  client_id :: string
  receiveRED :: bool

text \<open>
  Modelled from the spec: the constructors \<^verbatim>\<open>newScaleableClientTrack\<close>,
  \<^verbatim>\<open>newClientTrackRed\<close> and \<^verbatim>\<open>newClientTrack\<close> are not in the file. A client track is
  the variant that was built, for which subscriber, on which source track (and, for the
  plain variant, with which screen flag). \<open>SimulcastClientTrack\<close> is what
  \<^verbatim>\<open>newSimulcastClientTrack\<close> builds.
\<close>

datatype iClientTrack =
    ScaleableClientTrack string string
  | ClientTrackRed string string
  | ClientTrack string string bool
  | SimulcastClientTrack string string

subsection \<open>Source tracks\<close>

text \<open>
  Callbacks are identified by a number; what a call does is recorded in a trace. The
  records hold the fields that the methods below read or write; contexts, mutexes and
  the fields used by no method here (\<^verbatim>\<open>onEndedCallbacks\<close>, the base timestamps, the
  sequence numbers and the keyframe timestamps of the bundle) are left out.
\<close>

type_synonym callback = nat

record baseTrack =
  track_id :: string
  msid :: string
  streamid :: string
  client :: Client
  isProcessed :: bool
  kind :: RTPCodecType
  codec :: RTPCodecParameters
  isScreen :: bool
  clientTracks :: "iClientTrack list"

record Track =
  base :: baseTrack
  remoteTrack :: remoteTrack
  onReadCallbacks :: "callback list"

text \<open>
  The fields of \<^verbatim>\<open>SimulcastTrack\<close> that the methods below read or write. \<open>cancelled\<close>
  is the state of the bundle's context. \<open>completeCalls\<close> and \<open>addedCalls\<close> record, in
  order, each call of a registered completion callback and of a registered
  remote-track-added callback.
\<close>

record SimulcastTrack =
  sbase :: baseTrack
  cancelled :: bool
  onTrackCompleteCallbacks :: "callback list"
  remoteTrackHigh :: "remoteTrack option"
  remoteTrackMid :: "remoteTrack option"
  remoteTrackLow :: "remoteTrack option"
  lastReadHighTS :: "64 word"
  lastReadMidTS :: "64 word"
  lastReadLowTS :: "64 word"
  onAddedRemoteTrackCallbacks :: "callback list"
  completeCalls :: "callback list"
  addedCalls :: "(callback \<times> remoteTrack) list"

datatype ITrack = ITrack_Track Track | ITrack_SimulcastTrack SimulcastTrack

definition Track_ID :: "Track \<Rightarrow> string" where
  "Track_ID t = track_id (base t)"

definition SimulcastTrack_ID :: "SimulcastTrack \<Rightarrow> string" where
  "SimulcastTrack_ID t = track_id (sbase t)"

fun ITrack_ID :: "ITrack \<Rightarrow> string" where
  "ITrack_ID (ITrack_Track t) = Track_ID t"
| "ITrack_ID (ITrack_SimulcastTrack t) = SimulcastTrack_ID t"

section \<open>The track registry\<close>

datatype error = ErrTrackExists | ErrTrackIsNotExists

record trackList =
  tracks :: "string \<rightharpoonup> ITrack"

definition newTrackList :: trackList where
  "newTrackList = \<lparr>tracks = Map.empty\<rparr>"

text \<open>\<^verbatim>\<open>Add\<close> returns the error (\<open>None\<close> is Go's nil) and the registry after the call.\<close>

definition trackList_Add :: "trackList \<Rightarrow> ITrack \<Rightarrow> error option \<times> trackList" where
  "trackList_Add t tr =
     (let i = ITrack_ID tr in
      case tracks t i of
        Some _ \<Rightarrow> (Some ErrTrackExists, t)
      | None \<Rightarrow> (None, t\<lparr>tracks := (tracks t)(i \<mapsto> tr)\<rparr>))"

definition trackList_Get :: "trackList \<Rightarrow> string \<Rightarrow> error + ITrack" where
  "trackList_Get t ID =
     (case tracks t ID of
        Some tr \<Rightarrow> Inr tr
      | None \<Rightarrow> Inl ErrTrackIsNotExists)"

fun trackList_remove :: "trackList \<Rightarrow> string list \<Rightarrow> trackList" where
  "trackList_remove t [] = t"
| "trackList_remove t (i # ids) =
     trackList_remove (t\<lparr>tracks := (tracks t)(i := None)\<rparr>) ids"

definition trackList_Reset :: "trackList \<Rightarrow> trackList" where
  "trackList_Reset t = t\<lparr>tracks := Map.empty\<rparr>"

section \<open>The simulcast bundle\<close>

definition SimulcastTrack_OnTrackComplete :: "SimulcastTrack \<Rightarrow> callback \<Rightarrow> SimulcastTrack" where
  "SimulcastTrack_OnTrackComplete t f =
     t\<lparr>onTrackCompleteCallbacks := onTrackCompleteCallbacks t @ [f]\<rparr>"

text \<open>\<^verbatim>\<open>onTrackComplete\<close> calls every registered completion callback, in order.\<close>

definition SimulcastTrack_onTrackComplete :: "SimulcastTrack \<Rightarrow> SimulcastTrack" where
  "SimulcastTrack_onTrackComplete t =
     foldl (\<lambda>s f. s\<lparr>completeCalls := completeCalls s @ [f]\<rparr>) t (onTrackCompleteCallbacks t)"

definition SimulcastTrack_onRemoteTrackAdded :: "SimulcastTrack \<Rightarrow> callback \<Rightarrow> SimulcastTrack" where
  "SimulcastTrack_onRemoteTrackAdded t f =
     t\<lparr>onAddedRemoteTrackCallbacks := onAddedRemoteTrackCallbacks t @ [f]\<rparr>"

definition SimulcastTrack_onRemoteTrackAddedCallbacks ::
  "SimulcastTrack \<Rightarrow> remoteTrack \<Rightarrow> SimulcastTrack" where
  "SimulcastTrack_onRemoteTrackAddedCallbacks t rt =
     foldl (\<lambda>s f. s\<lparr>addedCalls := addedCalls s @ [(f, rt)]\<rparr>) t (onAddedRemoteTrackCallbacks t)"

text \<open>
  \<^verbatim>\<open>AddRemoteTrack\<close> returns the handle of the new remote track (\<open>None\<close> is nil) and the
  bundle after the call. The packet handler it builds and hands to \<^verbatim>\<open>newRemoteTrack\<close>
  runs only when packets arrive and is not part of this step. The watcher it starts for
  the slot is \<open>AddRemoteTrack_watcher\<close> below, a step of its own that happens when the
  remote track's context is done.
\<close>

definition SimulcastTrack_AddRemoteTrack ::
  "SimulcastTrack \<Rightarrow> IRemoteTrack \<Rightarrow> remoteTrack option \<times> SimulcastTrack" where
  "SimulcastTrack_AddRemoteTrack t trk =
     (let quality = RIDToQuality (irt_RID trk);
          rt = newRemoteTrack trk
      in case (case quality of
                 QualityHigh \<Rightarrow> Some (t\<lparr>remoteTrackHigh := Some rt\<rparr>)
               | QualityMid \<Rightarrow> Some (t\<lparr>remoteTrackMid := Some rt\<rparr>)
               | QualityLow \<Rightarrow> Some (t\<lparr>remoteTrackLow := Some rt\<rparr>)
               | QualityOther _ \<Rightarrow> None) of
           None \<Rightarrow> (None, t)
         | Some t1 \<Rightarrow>
             (let t2 = (if remoteTrackHigh t1 \<noteq> None \<and> remoteTrackMid t1 \<noteq> None
                           \<and> remoteTrackLow t1 \<noteq> None
                        then SimulcastTrack_onTrackComplete t1 else t1);
                  t3 = SimulcastTrack_onRemoteTrackAddedCallbacks t2 rt
              in (Some rt, t3)))"

definition AddRemoteTrack_watcher :: "SimulcastTrack \<Rightarrow> QualityLevel \<Rightarrow> SimulcastTrack" where
  "AddRemoteTrack_watcher t quality =
     (case quality of
        QualityHigh \<Rightarrow> t\<lparr>remoteTrackHigh := None, cancelled := True\<rparr>
      | QualityMid \<Rightarrow> t\<lparr>remoteTrackMid := None, cancelled := True\<rparr>
      | QualityLow \<Rightarrow> t\<lparr>remoteTrackLow := None, cancelled := True\<rparr>
      | QualityOther _ \<Rightarrow> t)"

definition newSimulcastTrack :: "Client \<Rightarrow> IRemoteTrack \<Rightarrow> SimulcastTrack" where
  "newSimulcastTrack c trk =
     snd (SimulcastTrack_AddRemoteTrack
       \<lparr>sbase = \<lparr>track_id = irt_ID trk, msid = irt_Msid trk, streamid = irt_StreamID trk,
                 client = c, isProcessed = False, kind = irt_Kind trk, codec = irt_Codec trk,
                 isScreen = False, clientTracks = []\<rparr>,
        cancelled = False, onTrackCompleteCallbacks = [],
        remoteTrackHigh = None, remoteTrackMid = None, remoteTrackLow = None,
        lastReadHighTS = 0, lastReadMidTS = 0, lastReadLowTS = 0,
        onAddedRemoteTrackCallbacks = [], completeCalls = [], addedCalls = []\<rparr> trk)"

definition SimulcastTrack_getRemoteTrack :: "SimulcastTrack \<Rightarrow> QualityLevel \<Rightarrow> remoteTrack option" where
  "SimulcastTrack_getRemoteTrack t q =
     (case q of
        QualityHigh \<Rightarrow> remoteTrackHigh t
      | QualityMid \<Rightarrow> remoteTrackMid t
      | QualityLow \<Rightarrow> remoteTrackLow t
      | QualityOther _ \<Rightarrow> None)"

definition SimulcastTrack_TotalTracks :: "SimulcastTrack \<Rightarrow> int" where
  "SimulcastTrack_TotalTracks t =
     (let total = 0;
          total = (if remoteTrackHigh t \<noteq> None then total + 1 else total);
          total = (if remoteTrackMid t \<noteq> None then total + 1 else total);
          total = (if remoteTrackLow t \<noteq> None then total + 1 else total)
      in total)"

definition SimulcastTrack_IsTrackComplete :: "SimulcastTrack \<Rightarrow> bool" where
  "SimulcastTrack_IsTrackComplete t = (SimulcastTrack_TotalTracks t = 3)"

subsection \<open>Liveness\<close>

text \<open>
  Time is Go's: an instant is a count of nanoseconds since the Unix epoch, a
  \<^verbatim>\<open>time.Duration\<close> is a signed 64-bit count of nanoseconds, and the difference of two
  instants saturates at the least and greatest duration. \<open>time_Since now ts\<close> is
  \<^verbatim>\<open>time.Since(time.Unix(0, ts))\<close> evaluated when the clock reads \<open>now\<close>.
\<close>

definition maxDuration :: int where
  "maxDuration = 2 ^ 63 - 1"

definition minDuration :: int where
  "minDuration = - (2 ^ 63)"

definition time_Since :: "int \<Rightarrow> 64 word \<Rightarrow> int" where
  "time_Since now ts =
     (let d = now - sint ts in
      if d > maxDuration then maxDuration
      else if d < minDuration then minDuration
      else d)"

definition Millisecond :: int where
  "Millisecond = 1000000"

definition SimulcastTrack_isTrackActive :: "int \<Rightarrow> SimulcastTrack \<Rightarrow> QualityLevel \<Rightarrow> bool" where
  "SimulcastTrack_isTrackActive now t quality =
     (let threshold = 500 * Millisecond in
      case quality of
        QualityHigh \<Rightarrow>
          (if remoteTrackHigh t = None then False
           else let delta = time_Since now (lastReadHighTS t) in
                if delta > threshold then False else True)
      | QualityMid \<Rightarrow>
          (if remoteTrackMid t = None then False
           else let delta = time_Since now (lastReadMidTS t) in
                if delta > threshold then False else True)
      | QualityLow \<Rightarrow>
          (if remoteTrackLow t = None then False
           else let delta = time_Since now (lastReadLowTS t) in
                if delta > threshold then False else True)
      | QualityOther _ \<Rightarrow> False)"

text \<open>The last-read timestamp that belongs to a quality (0 where the bundle keeps none).\<close>

definition lastReadTS :: "SimulcastTrack \<Rightarrow> QualityLevel \<Rightarrow> 64 word" where
  "lastReadTS t q =
     (case q of
        QualityHigh \<Rightarrow> lastReadHighTS t
      | QualityMid \<Rightarrow> lastReadMidTS t
      | QualityLow \<Rightarrow> lastReadLowTS t
      | QualityOther _ \<Rightarrow> 0)"

subsection \<open>Per-quality accessors\<close>

definition SimulcastTrack_SSRCHigh :: "SimulcastTrack \<Rightarrow> 32 word" where
  "SimulcastTrack_SSRCHigh t =
     (case remoteTrackHigh t of None \<Rightarrow> 0 | Some rt \<Rightarrow> irt_SSRC (track rt))"

definition SimulcastTrack_SSRCMid :: "SimulcastTrack \<Rightarrow> 32 word" where
  "SimulcastTrack_SSRCMid t =
     (case remoteTrackMid t of None \<Rightarrow> 0 | Some rt \<Rightarrow> irt_SSRC (track rt))"

definition SimulcastTrack_SSRCLow :: "SimulcastTrack \<Rightarrow> 32 word" where
  "SimulcastTrack_SSRCLow t =
     (case remoteTrackLow t of None \<Rightarrow> 0 | Some rt \<Rightarrow> irt_SSRC (track rt))"

definition SimulcastTrack_RIDHigh :: "SimulcastTrack \<Rightarrow> string" where
  "SimulcastTrack_RIDHigh t =
     (case remoteTrackHigh t of None \<Rightarrow> [] | Some rt \<Rightarrow> irt_RID (track rt))"

definition SimulcastTrack_RIDMid :: "SimulcastTrack \<Rightarrow> string" where
  "SimulcastTrack_RIDMid t =
     (case remoteTrackMid t of None \<Rightarrow> [] | Some rt \<Rightarrow> irt_RID (track rt))"

definition SimulcastTrack_RIDLow :: "SimulcastTrack \<Rightarrow> string" where
  "SimulcastTrack_RIDLow t =
     (case remoteTrackLow t of None \<Rightarrow> [] | Some rt \<Rightarrow> irt_RID (track rt))"

definition SimulcastTrack_IsRelay :: "SimulcastTrack \<Rightarrow> bool" where
  "SimulcastTrack_IsRelay t =
     (case remoteTrackHigh t of
        Some rt \<Rightarrow> remoteTrack_IsRelay rt
      | None \<Rightarrow>
          (case remoteTrackMid t of
             Some rt \<Rightarrow> remoteTrack_IsRelay rt
           | None \<Rightarrow>
               (case remoteTrackLow t of
                  Some rt \<Rightarrow> remoteTrack_IsRelay rt
                | None \<Rightarrow> False)))"

section \<open>The single-encoding track\<close>

definition newTrack :: "Client \<Rightarrow> IRemoteTrack \<Rightarrow> Track" where
  "newTrack c trackRemote =
     \<lparr>base = \<lparr>track_id = irt_ID trackRemote, msid = irt_Msid trackRemote,
               streamid = irt_StreamID trackRemote, client = c, isProcessed = False,
               kind = irt_Kind trackRemote, codec = irt_Codec trackRemote,
               isScreen = False, clientTracks = []\<rparr>,
      remoteTrack = newRemoteTrack trackRemote,
      onReadCallbacks = []\<rparr>"

definition Track_IsScreen :: "Track \<Rightarrow> bool" where
  "Track_IsScreen t = isScreen (base t)"

definition Track_Kind :: "Track \<Rightarrow> RTPCodecType" where
  "Track_Kind t = kind (base t)"

definition Track_MimeType :: "Track \<Rightarrow> string" where
  "Track_MimeType t = MimeType (codec (base t))"

definition Track_PayloadType :: "Track \<Rightarrow> 8 word" where
  "Track_PayloadType t = PayloadType (codec (base t))"

definition Track_IsScaleable :: "Track \<Rightarrow> bool" where
  "Track_IsScaleable t = (Track_MimeType t = MimeTypeVP9)"

text \<open>
  \<^verbatim>\<open>subscribe\<close> returns the client track and the track after the call: the PLI request
  is a change of the remote track, and the client track goes to the end of the list
  (modelled from the spec: \<^verbatim>\<open>clientTrackList.Add\<close> is not in the file, the spec has it
  append).
\<close>

definition Track_subscribe :: "Track \<Rightarrow> Client \<Rightarrow> iClientTrack \<times> Track" where
  "Track_subscribe t c =
     (let ct = (if Track_MimeType t = MimeTypeVP9
                  then ScaleableClientTrack (client_id c) (Track_ID t)
                else if Track_Kind t = RTPCodecTypeAudio \<and> Track_PayloadType t = 63
                  then ClientTrackRed (client_id c) (Track_ID t)
                else ClientTrack (client_id c) (Track_ID t) (Track_IsScreen t));
          t1 = (if Track_Kind t = RTPCodecTypeVideo
                  then t\<lparr>remoteTrack := remoteTrack_sendPLI (remoteTrack t)\<rparr>
                else t);
          t2 = t1\<lparr>base := (base t1)\<lparr>clientTracks := clientTracks (base t1) @ [ct]\<rparr>\<rparr>
      in (ct, t2))"


subsection \<open>Packets, the pool and the fan-out\<close>

text \<open>
  Packets are passed by pointer, so the model has a store: \<open>mem\<close> gives the packet at an
  address. What the recipients of a packet see is recorded in \<open>trace\<close>: a client track's
  \<^verbatim>\<open>push\<close> and a read-callback's call, each with the pointer it was given, the packet
  found there and the quality tag; and every acquisition and release of a pool buffer.
\<close>

type_synonym ptr = nat

record rtp_Header =
  Marker :: bool
  hPayloadType :: "8 word"
  SequenceNumber :: "16 word"
  Timestamp :: "32 word"
  hSSRC :: "32 word"

record rtp_Packet =
  Header :: rtp_Header
  Payload :: "8 word list"

datatype pool_event =
    Acquired ptr
  | Released ptr
  | Pushed iClientTrack ptr rtp_Packet QualityLevel
  | Called callback ptr rtp_Packet QualityLevel

record world =
  mem :: "ptr \<Rightarrow> rtp_Packet"
  poolFree :: "ptr list"
  poolNext :: ptr
  trace :: "pool_event list"

definition zeroPacket :: rtp_Packet where
  "zeroPacket =
     \<lparr>Header = \<lparr>Marker = False, hPayloadType = 0, SequenceNumber = 0, Timestamp = 0, hSSRC = 0\<rparr>,
      Payload = []\<rparr>"

text \<open>
  Modelled from the spec: package \<^verbatim>\<open>rtppool\<close> is not in the file. Acquire returns a
  buffer that nobody holds, a released one if there is one and a new one otherwise;
  release resets the buffer and gives it back; \<^verbatim>\<open>NewPacket\<close> wraps a header and a payload
  into a pool-backed packet until its \<^verbatim>\<open>Release\<close>.
\<close>

definition GetPacketAllocationFromPool :: "world \<Rightarrow> ptr \<times> world" where
  "GetPacketAllocationFromPool w =
     (case poolFree w of
        [] \<Rightarrow> (poolNext w,
               w\<lparr>poolNext := Suc (poolNext w), trace := trace w @ [Acquired (poolNext w)]\<rparr>)
      | a # as \<Rightarrow> (a, w\<lparr>poolFree := as, trace := trace w @ [Acquired a]\<rparr>))"

definition ResetPacketPoolAllocation :: "world \<Rightarrow> ptr \<Rightarrow> world" where
  "ResetPacketPoolAllocation w a =
     w\<lparr>mem := (mem w)(a := zeroPacket), poolFree := a # poolFree w,
       trace := trace w @ [Released a]\<rparr>"



text \<open>
  \<^verbatim>\<open>Track.onRead\<close>: the loop over the registered read-callbacks. Each round acquires
  \<open>copyPacket\<close>, copies the header and the payload of \<open>p\<close> into it, calls the callback
  and releases \<open>copyPacket\<close>.
\<close>

fun Track_onRead_loop :: "world \<Rightarrow> ptr \<Rightarrow> QualityLevel \<Rightarrow> callback list \<Rightarrow> world" where
  "Track_onRead_loop w p quality [] = w"
| "Track_onRead_loop w p quality (cb # cbs) =
     (let (copyPacket, w1) = GetPacketAllocationFromPool w;
          w2 = w1\<lparr>mem := (mem w1)(copyPacket :=
                 \<lparr>Header = Header (mem w1 p), Payload = Payload (mem w1 p)\<rparr>)\<rparr>;
          w3 = w2\<lparr>trace := trace w2 @ [Called cb p (mem w2 p) quality]\<rparr>;
          w4 = ResetPacketPoolAllocation w3 copyPacket
      in Track_onRead_loop w4 p quality cbs)"

definition Track_onRead :: "world \<Rightarrow> Track \<Rightarrow> ptr \<Rightarrow> QualityLevel \<Rightarrow> world" where
  "Track_onRead w t p quality = Track_onRead_loop w p quality (onReadCallbacks t)"



section \<open>Example values\<close>

definition exCodec :: RTPCodecParameters where
  "exCodec = \<lparr>MimeType = ''video/VP8'', PayloadType = 96\<rparr>"

definition exClient :: Client where
  "exClient = \<lparr>client_id = ''alice'', receiveRED = False\<rparr>"

definition exEncoding :: "string \<Rightarrow> bool \<Rightarrow> IRemoteTrack" where
  "exEncoding rid relay =
     \<lparr>irt_ID = ''abc'', irt_Msid = ''m'', irt_StreamID = ''s'', irt_Kind = RTPCodecTypeVideo,
      irt_Codec = exCodec, irt_RID = rid, irt_SSRC = 7, irt_IsRelay = relay\<rparr>"

definition exBase :: "string \<Rightarrow> baseTrack" where
  "exBase i =
     \<lparr>track_id = i, msid = ''m'', streamid = ''s'', client = exClient, isProcessed = False,
      kind = RTPCodecTypeVideo, codec = exCodec, isScreen = False, clientTracks = []\<rparr>"

definition exTrack :: "string \<Rightarrow> 32 word \<Rightarrow> Track" where
  "exTrack i ssrc =
     \<lparr>base = exBase i,
      remoteTrack = newRemoteTrack ((exEncoding [] False)\<lparr>irt_ID := i, irt_SSRC := ssrc\<rparr>),
      onReadCallbacks = []\<rparr>"

text \<open>A bundle with no encoding yet and one completion callback, number 0.\<close>

definition exBundle :: SimulcastTrack where
  "exBundle =
     \<lparr>sbase = exBase ''abc'', cancelled = False, onTrackCompleteCallbacks = [0],
      remoteTrackHigh = None, remoteTrackMid = None, remoteTrackLow = None,
      lastReadHighTS = 0, lastReadMidTS = 0, lastReadLowTS = 0,
      onAddedRemoteTrackCallbacks = [], completeCalls = [], addedCalls = []\<rparr>"




text \<open>A VP9 video track, an audio track with payload type 63, and a VP8 video track.\<close>

definition exVP9Track :: Track where
  "exVP9Track =
     newTrack exClient
       ((exEncoding [] False)\<lparr>irt_Codec := \<lparr>MimeType = ''video/VP9'', PayloadType = 98\<rparr>\<rparr>)"

definition exRedTrack :: Track where
  "exRedTrack =
     newTrack exClient
       ((exEncoding [] False)\<lparr>irt_Kind := RTPCodecTypeAudio,
          irt_Codec := \<lparr>MimeType = ''audio/red'', PayloadType = 63\<rparr>\<rparr>)"

definition exVP8Track :: Track where
  "exVP8Track = newTrack exClient (exEncoding [] False)"

section \<open>Sequences of calls and observations\<close>

text \<open>The bundle after a sequence of \<^verbatim>\<open>AddRemoteTrack\<close> calls.\<close>

definition SimulcastTrack_addAll :: "SimulcastTrack \<Rightarrow> IRemoteTrack list \<Rightarrow> SimulcastTrack" where
  "SimulcastTrack_addAll t trks =
     foldl (\<lambda>s trk. snd (SimulcastTrack_AddRemoteTrack s trk)) t trks"

text \<open>The read-callback calls of a trace: which callback, with which pointer.\<close>

fun calledPtrs :: "pool_event list \<Rightarrow> (callback \<times> ptr) list" where
  "calledPtrs [] = []"
| "calledPtrs (Called cb a pk q # es) = (cb, a) # calledPtrs es"
| "calledPtrs (e # es) = calledPtrs es"

section \<open>Properties of the registry\<close>

lemma tracks_remove:
  "tracks (trackList_remove t ids) k = (if k \<in> set ids then None else tracks t k)"
  by (induction ids arbitrary: t) auto

text \<open>
  Claim C7. After an \<^verbatim>\<open>Add\<close> that succeeded, a second \<^verbatim>\<open>Add\<close> of any track with the same
  id returns \<^verbatim>\<open>ErrTrackExists\<close> and the registry is the one it was called on; \<^verbatim>\<open>Get\<close> of
  the id still returns the first handle.
\<close>

theorem trackList_Add_duplicate:
  assumes "trackList_Add t a = (None, t')"
    and "ITrack_ID b = ITrack_ID a"
  shows "trackList_Add t' b = (Some ErrTrackExists, t')
       \<and> trackList_Get t' (ITrack_ID a) = Inr a"
  using assms
  by (auto simp: trackList_Add_def trackList_Get_def Let_def split: option.splits)

theorem trackList_Add_duplicate_witness:
  "trackList_Add newTrackList (ITrack_Track (exTrack ''abc'' 1))
     = (None, \<lparr>tracks = [''abc'' \<mapsto> ITrack_Track (exTrack ''abc'' 1)]\<rparr>)
   \<and> ITrack_ID (ITrack_Track (exTrack ''abc'' 2)) = ITrack_ID (ITrack_Track (exTrack ''abc'' 1))
   \<and> trackList_Add \<lparr>tracks = [''abc'' \<mapsto> ITrack_Track (exTrack ''abc'' 1)]\<rparr>
        (ITrack_Track (exTrack ''abc'' 2))
     = (Some ErrTrackExists, \<lparr>tracks = [''abc'' \<mapsto> ITrack_Track (exTrack ''abc'' 1)]\<rparr>)
   \<and> trackList_Get \<lparr>tracks = [''abc'' \<mapsto> ITrack_Track (exTrack ''abc'' 1)]\<rparr> ''abc''
     = Inr (ITrack_Track (exTrack ''abc'' 1))"
proof -
  let ?a = "ITrack_Track (exTrack ''abc'' 1)"
  let ?b = "ITrack_Track (exTrack ''abc'' 2)"
  let ?t' = "\<lparr>tracks = [''abc'' \<mapsto> ?a]\<rparr>"
  have ida: "Track_ID (exTrack ''abc'' 1) = ''abc''"
    by (simp add: Track_ID_def exTrack_def exBase_def)
  have idb: "ITrack_ID ?b = ITrack_ID ?a"
    by (simp add: Track_ID_def exTrack_def exBase_def)
  have add: "trackList_Add newTrackList ?a = (None, ?t')"
    by (simp add: trackList_Add_def newTrackList_def ida)
  from trackList_Add_duplicate [OF add idb] add idb ida show ?thesis
    by simp
qed

text \<open>
  Claim C8. After a track has been registered with \<^verbatim>\<open>Add\<close> (the call returned nil),
  \<^verbatim>\<open>Get\<close> of its id returns that handle; after \<^verbatim>\<open>remove\<close> of a list of ids that holds
  its id, \<^verbatim>\<open>Get\<close> of the id returns \<^verbatim>\<open>ErrTrackIsNotExists\<close>.
\<close>

theorem trackList_Add_Get_remove:
  assumes "trackList_Add t a = (None, t')"
  shows "trackList_Get t' (ITrack_ID a) = Inr a
       \<and> (ITrack_ID a \<in> set ids \<longrightarrow>
            trackList_Get (trackList_remove t' ids) (ITrack_ID a) = Inl ErrTrackIsNotExists)"
  using assms
  by (auto simp: trackList_Add_def trackList_Get_def tracks_remove Let_def
           split: option.splits)

theorem trackList_Add_Get_remove_witness:
  "trackList_Add newTrackList (ITrack_Track (exTrack ''abc'' 1))
     = (None, \<lparr>tracks = [''abc'' \<mapsto> ITrack_Track (exTrack ''abc'' 1)]\<rparr>)
   \<and> trackList_Get \<lparr>tracks = [''abc'' \<mapsto> ITrack_Track (exTrack ''abc'' 1)]\<rparr> ''abc''
     = Inr (ITrack_Track (exTrack ''abc'' 1))
   \<and> ''abc'' \<in> set [''x'', ''abc'']
   \<and> trackList_Get (trackList_remove \<lparr>tracks = [''abc'' \<mapsto> ITrack_Track (exTrack ''abc'' 1)]\<rparr>
        [''x'', ''abc'']) ''abc'' = Inl ErrTrackIsNotExists"
proof -
  let ?a = "ITrack_Track (exTrack ''abc'' 1)"
  let ?t' = "\<lparr>tracks = [''abc'' \<mapsto> ?a]\<rparr>"
  have ida: "Track_ID (exTrack ''abc'' 1) = ''abc''"
    by (simp add: Track_ID_def exTrack_def exBase_def)
  have add: "trackList_Add newTrackList ?a = (None, ?t')"
    by (simp add: trackList_Add_def newTrackList_def ida)
  have mem: "ITrack_ID ?a \<in> set [''x'', ''abc'']"
    by (simp add: ida)
  from trackList_Add_Get_remove [OF add, of "[''x'', ''abc'']"] add mem ida
  show ?thesis by simp
qed

section \<open>RID to quality\<close>

text \<open>
  Claim C9. The RID \<^verbatim>\<open>high\<close> maps to \<^verbatim>\<open>QualityHigh\<close>, \<^verbatim>\<open>mid\<close> to \<^verbatim>\<open>QualityMid\<close>, and
  every other string, the empty string among them, to \<^verbatim>\<open>QualityLow\<close>.
\<close>

theorem RIDToQuality_cases:
  "RIDToQuality ''high'' = QualityHigh
   \<and> RIDToQuality ''mid'' = QualityMid
   \<and> (\<forall>r. r \<noteq> ''high'' \<and> r \<noteq> ''mid'' \<longrightarrow> RIDToQuality r = QualityLow)
   \<and> RIDToQuality [] = QualityLow"
  by (simp add: RIDToQuality_def)

theorem RIDToQuality_cases_witness:
  "''low'' \<noteq> ''high'' \<and> ''low'' \<noteq> ''mid'' \<and> RIDToQuality ''low'' = QualityLow
   \<and> RIDToQuality ''high'' = QualityHigh \<and> RIDToQuality ''mid'' = QualityMid
   \<and> RIDToQuality [] = QualityLow"
  using RIDToQuality_cases by simp


section \<open>Properties of the simulcast bundle\<close>

lemma foldl_completeCalls:
  "foldl (\<lambda>s f. s\<lparr>completeCalls := completeCalls s @ [f]\<rparr>) t fs
     = t\<lparr>completeCalls := completeCalls t @ fs\<rparr>"
  by (induction fs arbitrary: t) simp_all

lemma foldl_addedCalls:
  "foldl (\<lambda>s f. s\<lparr>addedCalls := addedCalls s @ [(f, rt)]\<rparr>) t fs
     = t\<lparr>addedCalls := addedCalls t @ map (\<lambda>f. (f, rt)) fs\<rparr>"
  by (induction fs arbitrary: t) simp_all

lemma onTrackComplete_eq:
  "SimulcastTrack_onTrackComplete t
     = t\<lparr>completeCalls := completeCalls t @ onTrackCompleteCallbacks t\<rparr>"
  by (simp add: SimulcastTrack_onTrackComplete_def foldl_completeCalls)

lemma onRemoteTrackAddedCallbacks_eq:
  "SimulcastTrack_onRemoteTrackAddedCallbacks t rt
     = t\<lparr>addedCalls := addedCalls t @ map (\<lambda>f. (f, rt)) (onAddedRemoteTrackCallbacks t)\<rparr>"
  by (simp add: SimulcastTrack_onRemoteTrackAddedCallbacks_def foldl_addedCalls)

lemma IsTrackComplete_iff:
  "SimulcastTrack_IsTrackComplete t \<longleftrightarrow>
     remoteTrackHigh t \<noteq> None \<and> remoteTrackMid t \<noteq> None \<and> remoteTrackLow t \<noteq> None"
  by (simp add: SimulcastTrack_IsTrackComplete_def SimulcastTrack_TotalTracks_def Let_def)

text \<open>
  What \<^verbatim>\<open>AddRemoteTrack\<close> does for each of the three qualities that \<^verbatim>\<open>RIDToQuality\<close> can
  return, with the two callback loops written as one update each.
\<close>

lemma AddRemoteTrack_high:
  "irt_RID trk = ''high'' \<Longrightarrow>
   SimulcastTrack_AddRemoteTrack t trk =
     (Some (newRemoteTrack trk),
      SimulcastTrack_onRemoteTrackAddedCallbacks
        (if remoteTrackMid t \<noteq> None \<and> remoteTrackLow t \<noteq> None
         then SimulcastTrack_onTrackComplete (t\<lparr>remoteTrackHigh := Some (newRemoteTrack trk)\<rparr>)
         else t\<lparr>remoteTrackHigh := Some (newRemoteTrack trk)\<rparr>)
        (newRemoteTrack trk))"
  by (simp add: SimulcastTrack_AddRemoteTrack_def RIDToQuality_def Let_def)

lemma AddRemoteTrack_mid:
  "irt_RID trk = ''mid'' \<Longrightarrow>
   SimulcastTrack_AddRemoteTrack t trk =
     (Some (newRemoteTrack trk),
      SimulcastTrack_onRemoteTrackAddedCallbacks
        (if remoteTrackHigh t \<noteq> None \<and> remoteTrackLow t \<noteq> None
         then SimulcastTrack_onTrackComplete (t\<lparr>remoteTrackMid := Some (newRemoteTrack trk)\<rparr>)
         else t\<lparr>remoteTrackMid := Some (newRemoteTrack trk)\<rparr>)
        (newRemoteTrack trk))"
  by (simp add: SimulcastTrack_AddRemoteTrack_def RIDToQuality_def Let_def)

lemma AddRemoteTrack_low:
  "irt_RID trk \<noteq> ''high'' \<Longrightarrow> irt_RID trk \<noteq> ''mid'' \<Longrightarrow>
   SimulcastTrack_AddRemoteTrack t trk =
     (Some (newRemoteTrack trk),
      SimulcastTrack_onRemoteTrackAddedCallbacks
        (if remoteTrackHigh t \<noteq> None \<and> remoteTrackMid t \<noteq> None
         then SimulcastTrack_onTrackComplete (t\<lparr>remoteTrackLow := Some (newRemoteTrack trk)\<rparr>)
         else t\<lparr>remoteTrackLow := Some (newRemoteTrack trk)\<rparr>)
        (newRemoteTrack trk))"
  by (simp add: SimulcastTrack_AddRemoteTrack_def RIDToQuality_def Let_def)

subsection \<open>Unknown RIDs\<close>

text \<open>
  A remote track whose RID is \<^verbatim>\<open>foo\<close>, neither \<^verbatim>\<open>high\<close> nor \<^verbatim>\<open>mid\<close>, is not rejected:
  \<^verbatim>\<open>AddRemoteTrack\<close> returns a handle for it.
\<close>

theorem AddRemoteTrack_unknown_RID_counterexample:
  "irt_RID (exEncoding ''foo'' False) \<noteq> ''high''
   \<and> irt_RID (exEncoding ''foo'' False) \<noteq> ''mid''
   \<and> fst (SimulcastTrack_AddRemoteTrack exBundle (exEncoding ''foo'' False)) \<noteq> None"
  by (simp add: SimulcastTrack_AddRemoteTrack_def RIDToQuality_def Let_def exEncoding_def)

text \<open>
  Claim C1, as amended. For every remote track \<^verbatim>\<open>AddRemoteTrack\<close> returns the handle of
  the remote track it built, never nil; a track whose RID is neither \<^verbatim>\<open>high\<close> nor \<^verbatim>\<open>mid\<close>
  is taken as the low encoding and its handle is installed in the low slot. The branch
  that returns nil is for a quality other than high, mid and low, which \<^verbatim>\<open>RIDToQuality\<close>
  returns for no RID.
\<close>

theorem AddRemoteTrack_never_nil:
  "fst (SimulcastTrack_AddRemoteTrack t trk) = Some (newRemoteTrack trk)
   \<and> (irt_RID trk \<noteq> ''high'' \<and> irt_RID trk \<noteq> ''mid'' \<longrightarrow>
        remoteTrackLow (snd (SimulcastTrack_AddRemoteTrack t trk)) = Some (newRemoteTrack trk))"
proof -
  have "fst (SimulcastTrack_AddRemoteTrack t trk) = Some (newRemoteTrack trk)"
    by (simp add: SimulcastTrack_AddRemoteTrack_def RIDToQuality_def Let_def)
  moreover have "remoteTrackLow (snd (SimulcastTrack_AddRemoteTrack t trk)) = Some (newRemoteTrack trk)"
    if "irt_RID trk \<noteq> ''high''" "irt_RID trk \<noteq> ''mid''"
    using that
    by (simp add: AddRemoteTrack_low onTrackComplete_eq onRemoteTrackAddedCallbacks_eq)
  ultimately show ?thesis by blast
qed

theorem AddRemoteTrack_never_nil_witness:
  "irt_RID (exEncoding ''foo'' False) \<noteq> ''high''
   \<and> irt_RID (exEncoding ''foo'' False) \<noteq> ''mid''
   \<and> fst (SimulcastTrack_AddRemoteTrack exBundle (exEncoding ''foo'' False))
       = Some (newRemoteTrack (exEncoding ''foo'' False))
   \<and> remoteTrackLow (snd (SimulcastTrack_AddRemoteTrack exBundle (exEncoding ''foo'' False)))
       = Some (newRemoteTrack (exEncoding ''foo'' False))"
proof -
  have rid: "irt_RID (exEncoding ''foo'' False) = ''foo''"
    by (simp add: exEncoding_def)
  from AddRemoteTrack_never_nil [of exBundle "exEncoding ''foo'' False"] rid
  show ?thesis by simp
qed

subsection \<open>Relay\<close>

text \<open>
  A bundle whose high slot holds an encoding that is not a relay and whose mid slot
  holds a relay: an occupied slot is a relay, and \<^verbatim>\<open>IsRelay\<close> returns false.
\<close>

theorem IsRelay_any_counterexample:
  "remoteTrackMid (SimulcastTrack_addAll exBundle [exEncoding ''high'' False, exEncoding ''mid'' True])
     = Some (newRemoteTrack (exEncoding ''mid'' True))
   \<and> remoteTrack_IsRelay (newRemoteTrack (exEncoding ''mid'' True))
   \<and> \<not> SimulcastTrack_IsRelay
         (SimulcastTrack_addAll exBundle [exEncoding ''high'' False, exEncoding ''mid'' True])"
  by (simp add: SimulcastTrack_addAll_def AddRemoteTrack_high AddRemoteTrack_mid
      onTrackComplete_eq onRemoteTrackAddedCallbacks_eq exBundle_def exEncoding_def
      SimulcastTrack_IsRelay_def remoteTrack_IsRelay_def newRemoteTrack_def)

text \<open>
  Claim C3, as amended. \<^verbatim>\<open>IsRelay\<close> returns the relay flag of the first occupied slot in
  the order high, mid, low, and false when no slot is occupied. So when it returns true
  some occupied slot holds a relay; a relay in a later slot is not looked at when an
  earlier slot is occupied.
\<close>

theorem IsRelay_first_occupied:
  "(\<forall>rt. remoteTrackHigh t = Some rt \<longrightarrow> SimulcastTrack_IsRelay t = remoteTrack_IsRelay rt)
 \<and> (\<forall>rt. remoteTrackHigh t = None \<and> remoteTrackMid t = Some rt
        \<longrightarrow> SimulcastTrack_IsRelay t = remoteTrack_IsRelay rt)
 \<and> (\<forall>rt. remoteTrackHigh t = None \<and> remoteTrackMid t = None \<and> remoteTrackLow t = Some rt
        \<longrightarrow> SimulcastTrack_IsRelay t = remoteTrack_IsRelay rt)
 \<and> (remoteTrackHigh t = None \<and> remoteTrackMid t = None \<and> remoteTrackLow t = None
        \<longrightarrow> \<not> SimulcastTrack_IsRelay t)
 \<and> (SimulcastTrack_IsRelay t \<longrightarrow>
        (\<exists>q rt. SimulcastTrack_getRemoteTrack t q = Some rt \<and> remoteTrack_IsRelay rt))"
proof -
  have "\<exists>q rt. SimulcastTrack_getRemoteTrack t q = Some rt \<and> remoteTrack_IsRelay rt"
    if r: "SimulcastTrack_IsRelay t"
  proof (cases "remoteTrackHigh t")
    case (Some rt)
    with r have "SimulcastTrack_getRemoteTrack t QualityHigh = Some rt \<and> remoteTrack_IsRelay rt"
      by (simp add: SimulcastTrack_IsRelay_def SimulcastTrack_getRemoteTrack_def)
    then show ?thesis by blast
  next
    case noHigh: None
    show ?thesis
    proof (cases "remoteTrackMid t")
      case (Some rt)
      with noHigh r
      have "SimulcastTrack_getRemoteTrack t QualityMid = Some rt \<and> remoteTrack_IsRelay rt"
        by (simp add: SimulcastTrack_IsRelay_def SimulcastTrack_getRemoteTrack_def)
      then show ?thesis by blast
    next
      case noMid: None
      with noHigh r obtain rt where "remoteTrackLow t = Some rt" "remoteTrack_IsRelay rt"
        by (auto simp: SimulcastTrack_IsRelay_def split: option.splits)
      then have "SimulcastTrack_getRemoteTrack t QualityLow = Some rt \<and> remoteTrack_IsRelay rt"
        by (simp add: SimulcastTrack_getRemoteTrack_def)
      then show ?thesis by blast
    qed
  qed
  then show ?thesis
    by (simp add: SimulcastTrack_IsRelay_def)
qed

theorem IsRelay_first_occupied_witness:
  "remoteTrackHigh (exBundle\<lparr>remoteTrackHigh := Some (newRemoteTrack (exEncoding ''high'' True))\<rparr>)
     = Some (newRemoteTrack (exEncoding ''high'' True))
   \<and> SimulcastTrack_IsRelay
       (exBundle\<lparr>remoteTrackHigh := Some (newRemoteTrack (exEncoding ''high'' True))\<rparr>)
   \<and> SimulcastTrack_getRemoteTrack
       (exBundle\<lparr>remoteTrackHigh := Some (newRemoteTrack (exEncoding ''high'' True))\<rparr>) QualityHigh
     = Some (newRemoteTrack (exEncoding ''high'' True))
   \<and> remoteTrack_IsRelay (newRemoteTrack (exEncoding ''high'' True))
   \<and> remoteTrackHigh (exBundle\<lparr>remoteTrackMid := Some (newRemoteTrack (exEncoding ''mid'' True))\<rparr>)
     = None
   \<and> SimulcastTrack_IsRelay
       (exBundle\<lparr>remoteTrackMid := Some (newRemoteTrack (exEncoding ''mid'' True))\<rparr>)
   \<and> remoteTrackMid (exBundle\<lparr>remoteTrackLow := Some (newRemoteTrack (exEncoding ''low'' True))\<rparr>)
     = None
   \<and> SimulcastTrack_IsRelay
       (exBundle\<lparr>remoteTrackLow := Some (newRemoteTrack (exEncoding ''low'' True))\<rparr>)
   \<and> remoteTrackHigh exBundle = None \<and> remoteTrackMid exBundle = None
   \<and> remoteTrackLow exBundle = None \<and> \<not> SimulcastTrack_IsRelay exBundle"
proof -
  let ?h = "exBundle\<lparr>remoteTrackHigh := Some (newRemoteTrack (exEncoding ''high'' True))\<rparr>"
  let ?m = "exBundle\<lparr>remoteTrackMid := Some (newRemoteTrack (exEncoding ''mid'' True))\<rparr>"
  let ?l = "exBundle\<lparr>remoteTrackLow := Some (newRemoteTrack (exEncoding ''low'' True))\<rparr>"
  have relay: "remoteTrack_IsRelay (newRemoteTrack (exEncoding r True))" for r
    by (simp add: remoteTrack_IsRelay_def newRemoteTrack_def exEncoding_def)
  have slots: "remoteTrackHigh exBundle = None" "remoteTrackMid exBundle = None"
    "remoteTrackLow exBundle = None"
    by (simp_all add: exBundle_def)
  have get: "SimulcastTrack_getRemoteTrack ?h QualityHigh
               = Some (newRemoteTrack (exEncoding ''high'' True))"
    by (simp add: SimulcastTrack_getRemoteTrack_def)
  from IsRelay_first_occupied [of ?h] IsRelay_first_occupied [of ?m]
    IsRelay_first_occupied [of ?l] IsRelay_first_occupied [of exBundle] relay slots get
  show ?thesis by simp
qed

subsection \<open>Completion\<close>

text \<open>
  The encodings low, mid and high are added to a bundle with one completion callback:
  the bundle is complete and the callback has been called once. A new high encoding is
  then added (the publisher restarts it): the callback is called a second time.
\<close>

theorem onTrackComplete_once_counterexample:
  "SimulcastTrack_IsTrackComplete
     (SimulcastTrack_addAll exBundle
        [exEncoding ''low'' False, exEncoding ''mid'' False, exEncoding ''high'' False])
   \<and> completeCalls
       (SimulcastTrack_addAll exBundle
          [exEncoding ''low'' False, exEncoding ''mid'' False, exEncoding ''high'' False]) = [0]
   \<and> completeCalls
       (SimulcastTrack_addAll exBundle
          [exEncoding ''low'' False, exEncoding ''mid'' False, exEncoding ''high'' False,
           exEncoding ''high'' False]) = [0, 0]"
  by (simp add: SimulcastTrack_addAll_def AddRemoteTrack_high AddRemoteTrack_mid
      AddRemoteTrack_low IsTrackComplete_iff
      onTrackComplete_eq onRemoteTrackAddedCallbacks_eq exBundle_def exEncoding_def)

text \<open>
  Claim C4, as amended. The completion callbacks are called by \<^verbatim>\<open>AddRemoteTrack\<close>, once
  each, exactly when the high, mid and low slots are all occupied after the call: so
  they are called at the first moment the three slots are occupied together, and again
  by every later \<^verbatim>\<open>AddRemoteTrack\<close> that leaves the three occupied. The watcher that
  clears a slot and the registration of a callback call none of them.
\<close>

theorem onTrackComplete_fires_when_complete:
  "(SimulcastTrack_IsTrackComplete (snd (SimulcastTrack_AddRemoteTrack t trk)) \<longrightarrow>
      completeCalls (snd (SimulcastTrack_AddRemoteTrack t trk))
        = completeCalls t @ onTrackCompleteCallbacks t)
 \<and> (\<not> SimulcastTrack_IsTrackComplete (snd (SimulcastTrack_AddRemoteTrack t trk)) \<longrightarrow>
      completeCalls (snd (SimulcastTrack_AddRemoteTrack t trk)) = completeCalls t)
 \<and> completeCalls (AddRemoteTrack_watcher t q) = completeCalls t
 \<and> completeCalls (SimulcastTrack_OnTrackComplete t f) = completeCalls t"
proof -
  have w: "completeCalls (AddRemoteTrack_watcher t q) = completeCalls t"
    by (cases q) (simp_all add: AddRemoteTrack_watcher_def)
  have r: "completeCalls (SimulcastTrack_OnTrackComplete t f) = completeCalls t"
    by (simp add: SimulcastTrack_OnTrackComplete_def)
  consider (high) "irt_RID trk = ''high''" | (mid) "irt_RID trk = ''mid''"
    | (low) "irt_RID trk \<noteq> ''high''" "irt_RID trk \<noteq> ''mid''"
    by blast
  then have
    "(SimulcastTrack_IsTrackComplete (snd (SimulcastTrack_AddRemoteTrack t trk)) \<longrightarrow>
        completeCalls (snd (SimulcastTrack_AddRemoteTrack t trk))
          = completeCalls t @ onTrackCompleteCallbacks t)
   \<and> (\<not> SimulcastTrack_IsTrackComplete (snd (SimulcastTrack_AddRemoteTrack t trk)) \<longrightarrow>
        completeCalls (snd (SimulcastTrack_AddRemoteTrack t trk)) = completeCalls t)"
  proof cases
    case high
    then show ?thesis
      by (auto simp: AddRemoteTrack_high IsTrackComplete_iff onTrackComplete_eq
          onRemoteTrackAddedCallbacks_eq)
  next
    case mid
    then show ?thesis
      by (auto simp: AddRemoteTrack_mid IsTrackComplete_iff onTrackComplete_eq
          onRemoteTrackAddedCallbacks_eq)
  next
    case low
    then show ?thesis
      by (auto simp: AddRemoteTrack_low IsTrackComplete_iff onTrackComplete_eq
          onRemoteTrackAddedCallbacks_eq)
  qed
  with w r show ?thesis by blast
qed

theorem onTrackComplete_fires_when_complete_witness:
  "SimulcastTrack_IsTrackComplete
     (snd (SimulcastTrack_AddRemoteTrack
        (SimulcastTrack_addAll exBundle [exEncoding ''low'' False, exEncoding ''mid'' False])
        (exEncoding ''high'' False)))
   \<and> completeCalls
       (snd (SimulcastTrack_AddRemoteTrack
          (SimulcastTrack_addAll exBundle [exEncoding ''low'' False, exEncoding ''mid'' False])
          (exEncoding ''high'' False))) = [0]
   \<and> \<not> SimulcastTrack_IsTrackComplete
         (snd (SimulcastTrack_AddRemoteTrack exBundle (exEncoding ''low'' False)))
   \<and> completeCalls (snd (SimulcastTrack_AddRemoteTrack exBundle (exEncoding ''low'' False))) = []"
proof -
  let ?t = "SimulcastTrack_addAll exBundle [exEncoding ''low'' False, exEncoding ''mid'' False]"
  have slots: "remoteTrackHigh ?t = None" "remoteTrackMid ?t \<noteq> None" "remoteTrackLow ?t \<noteq> None"
    and calls: "completeCalls ?t = []" "onTrackCompleteCallbacks ?t = [0]"
    by (simp_all add: SimulcastTrack_addAll_def AddRemoteTrack_mid AddRemoteTrack_low
        onTrackComplete_eq onRemoteTrackAddedCallbacks_eq exBundle_def exEncoding_def)
  have c1: "SimulcastTrack_IsTrackComplete
              (snd (SimulcastTrack_AddRemoteTrack ?t (exEncoding ''high'' False)))"
    using slots
    by (simp add: AddRemoteTrack_high IsTrackComplete_iff onTrackComplete_eq
        onRemoteTrackAddedCallbacks_eq exEncoding_def)
  have c2: "\<not> SimulcastTrack_IsTrackComplete
              (snd (SimulcastTrack_AddRemoteTrack exBundle (exEncoding ''low'' False)))"
    by (simp add: AddRemoteTrack_low IsTrackComplete_iff onTrackComplete_eq
        onRemoteTrackAddedCallbacks_eq exBundle_def exEncoding_def)
  have e: "completeCalls exBundle = []"
    by (simp add: exBundle_def)
  from onTrackComplete_fires_when_complete [of ?t "exEncoding ''high'' False"]
    onTrackComplete_fires_when_complete [of exBundle "exEncoding ''low'' False"]
    c1 c2 calls e
  show ?thesis by simp
qed


subsection \<open>Liveness\<close>

text \<open>
  Claim C6. \<^verbatim>\<open>isTrackActive\<close> of a quality is true if and only if the slot of that quality
  is not empty and the time elapsed since its last-read timestamp, read at the same
  instant, is at most 500 ms (500000000 ns). In particular an active quality was last
  read at most 500 ms ago. The saturation of Go's duration arithmetic does not change
  the answer.
\<close>

theorem isTrackActive_iff:
  "SimulcastTrack_isTrackActive now t q
   \<longleftrightarrow> SimulcastTrack_getRemoteTrack t q \<noteq> None \<and> now - sint (lastReadTS t q) \<le> 500000000"
  by (cases q) (auto simp: SimulcastTrack_isTrackActive_def SimulcastTrack_getRemoteTrack_def
      lastReadTS_def time_Since_def maxDuration_def minDuration_def Millisecond_def Let_def)

theorem isTrackActive_iff_witness:
  "SimulcastTrack_isTrackActive 1200000000
     (exBundle\<lparr>remoteTrackLow := Some (newRemoteTrack (exEncoding ''low'' False)),
               lastReadLowTS := 1000000000\<rparr>) QualityLow
   \<and> \<not> SimulcastTrack_isTrackActive 1600000000
     (exBundle\<lparr>remoteTrackLow := Some (newRemoteTrack (exEncoding ''low'' False)),
               lastReadLowTS := 1000000000\<rparr>) QualityLow
   \<and> \<not> SimulcastTrack_isTrackActive 1200000000
     (exBundle\<lparr>remoteTrackLow := Some (newRemoteTrack (exEncoding ''low'' False)),
               lastReadLowTS := 1000000000\<rparr>) QualityHigh"
proof -
  let ?t = "exBundle\<lparr>remoteTrackLow := Some (newRemoteTrack (exEncoding ''low'' False)),
                     lastReadLowTS := 1000000000\<rparr>"
  have low: "SimulcastTrack_getRemoteTrack ?t QualityLow \<noteq> None"
    and high: "SimulcastTrack_getRemoteTrack ?t QualityHigh = None"
    and ts: "sint (lastReadTS ?t QualityLow) = 1000000000"
    by (simp_all add: SimulcastTrack_getRemoteTrack_def lastReadTS_def exBundle_def)
  from isTrackActive_iff [of 1200000000 ?t QualityLow]
    isTrackActive_iff [of 1600000000 ?t QualityLow]
    isTrackActive_iff [of 1200000000 ?t QualityHigh] low high ts
  show ?thesis by simp
qed

subsection \<open>Accessors of an incomplete bundle\<close>

text \<open>
  Claim C10. The per-quality accessors are total functions of the bundle. Where the
  slot of a quality is empty, the SSRC accessor of that quality returns 0 and the RID
  accessor returns the empty string.
\<close>

theorem accessors_of_empty_slot:
  "(remoteTrackHigh t = None \<longrightarrow> SimulcastTrack_SSRCHigh t = 0 \<and> SimulcastTrack_RIDHigh t = [])
 \<and> (remoteTrackMid t = None \<longrightarrow> SimulcastTrack_SSRCMid t = 0 \<and> SimulcastTrack_RIDMid t = [])
 \<and> (remoteTrackLow t = None \<longrightarrow> SimulcastTrack_SSRCLow t = 0 \<and> SimulcastTrack_RIDLow t = [])"
  by (simp add: SimulcastTrack_SSRCHigh_def SimulcastTrack_SSRCMid_def SimulcastTrack_SSRCLow_def
      SimulcastTrack_RIDHigh_def SimulcastTrack_RIDMid_def SimulcastTrack_RIDLow_def)

theorem accessors_of_empty_slot_witness:
  "remoteTrackHigh exBundle = None \<and> remoteTrackMid exBundle = None
   \<and> remoteTrackLow exBundle = None
   \<and> SimulcastTrack_SSRCHigh exBundle = 0 \<and> SimulcastTrack_RIDHigh exBundle = []
   \<and> SimulcastTrack_SSRCMid exBundle = 0 \<and> SimulcastTrack_RIDMid exBundle = []
   \<and> SimulcastTrack_SSRCLow exBundle = 0 \<and> SimulcastTrack_RIDLow exBundle = []"
proof -
  have slots: "remoteTrackHigh exBundle = None" "remoteTrackMid exBundle = None"
    "remoteTrackLow exBundle = None"
    by (simp_all add: exBundle_def)
  from accessors_of_empty_slot [of exBundle] slots show ?thesis by simp
qed

section \<open>Properties of the single-encoding track\<close>

subsection \<open>Subscription\<close>

text \<open>
  Claim C5. \<^verbatim>\<open>subscribe\<close> on a single-encoding track returns the scalable client track
  if the MIME type of the codec is VP9; otherwise the RED client track if the kind is
  audio and the payload type is 63; otherwise the plain client track. Whenever the kind
  is video, the call asks the remote track for a PLI (one more \<^verbatim>\<open>sendPLI\<close>).
\<close>

theorem subscribe_variant_and_PLI:
  "(Track_MimeType t = MimeTypeVP9 \<longrightarrow>
      fst (Track_subscribe t c) = ScaleableClientTrack (client_id c) (Track_ID t))
 \<and> (Track_MimeType t \<noteq> MimeTypeVP9 \<and> Track_Kind t = RTPCodecTypeAudio
      \<and> Track_PayloadType t = 63 \<longrightarrow>
      fst (Track_subscribe t c) = ClientTrackRed (client_id c) (Track_ID t))
 \<and> (Track_MimeType t \<noteq> MimeTypeVP9
      \<and> \<not> (Track_Kind t = RTPCodecTypeAudio \<and> Track_PayloadType t = 63) \<longrightarrow>
      fst (Track_subscribe t c) = ClientTrack (client_id c) (Track_ID t) (Track_IsScreen t))
 \<and> (Track_Kind t = RTPCodecTypeVideo \<longrightarrow>
      pliRequests (remoteTrack (snd (Track_subscribe t c))) = Suc (pliRequests (remoteTrack t)))"
  by (simp add: Track_subscribe_def Let_def remoteTrack_sendPLI_def)

theorem subscribe_variant_and_PLI_witness:
  "Track_MimeType exVP9Track = MimeTypeVP9 \<and> Track_Kind exVP9Track = RTPCodecTypeVideo
   \<and> fst (Track_subscribe exVP9Track exClient) = ScaleableClientTrack ''alice'' ''abc''
   \<and> pliRequests (remoteTrack (snd (Track_subscribe exVP9Track exClient))) = 1
   \<and> Track_MimeType exRedTrack \<noteq> MimeTypeVP9 \<and> Track_Kind exRedTrack = RTPCodecTypeAudio
   \<and> Track_PayloadType exRedTrack = 63
   \<and> fst (Track_subscribe exRedTrack exClient) = ClientTrackRed ''alice'' ''abc''
   \<and> Track_MimeType exVP8Track \<noteq> MimeTypeVP9 \<and> Track_Kind exVP8Track = RTPCodecTypeVideo
   \<and> fst (Track_subscribe exVP8Track exClient) = ClientTrack ''alice'' ''abc'' False
   \<and> pliRequests (remoteTrack (snd (Track_subscribe exVP8Track exClient))) = 1"
proof -
  have vp9: "Track_MimeType exVP9Track = MimeTypeVP9" "Track_Kind exVP9Track = RTPCodecTypeVideo"
    "Track_ID exVP9Track = ''abc''" "pliRequests (remoteTrack exVP9Track) = 0"
    by (simp_all add: exVP9Track_def newTrack_def Track_MimeType_def Track_Kind_def Track_ID_def
        MimeTypeVP9_def exEncoding_def newRemoteTrack_def)
  have red: "Track_MimeType exRedTrack \<noteq> MimeTypeVP9" "Track_Kind exRedTrack = RTPCodecTypeAudio"
    "Track_PayloadType exRedTrack = 63" "Track_ID exRedTrack = ''abc''"
    by (simp_all add: exRedTrack_def newTrack_def Track_MimeType_def Track_Kind_def Track_ID_def
        Track_PayloadType_def MimeTypeVP9_def exEncoding_def)
  have vp8: "Track_MimeType exVP8Track \<noteq> MimeTypeVP9" "Track_Kind exVP8Track = RTPCodecTypeVideo"
    "Track_ID exVP8Track = ''abc''" "pliRequests (remoteTrack exVP8Track) = 0"
    "Track_IsScreen exVP8Track = False"
    by (simp_all add: exVP8Track_def newTrack_def Track_MimeType_def Track_Kind_def Track_ID_def
        Track_IsScreen_def MimeTypeVP9_def exEncoding_def exCodec_def newRemoteTrack_def)
  have c: "client_id exClient = ''alice''"
    by (simp add: exClient_def)
  from subscribe_variant_and_PLI [of exVP9Track exClient]
    subscribe_variant_and_PLI [of exRedTrack exClient]
    subscribe_variant_and_PLI [of exVP8Track exClient] vp9 red vp8 c
  show ?thesis by simp
qed

subsection \<open>Read-callbacks\<close>

lemma calledPtrs_append:
  "calledPtrs (es @ fs) = calledPtrs es @ calledPtrs fs"
  by (induction es rule: calledPtrs.induct) simp_all

lemma trace_GetPacketAllocationFromPool:
  "trace (snd (GetPacketAllocationFromPool w))
     = trace w @ [Acquired (fst (GetPacketAllocationFromPool w))]"
  by (simp add: GetPacketAllocationFromPool_def split: list.splits)

text \<open>
  Whatever the store, the pool and the callbacks are, \<^verbatim>\<open>Track.onRead\<close> calls each
  registered callback, in order, with the pointer \<open>p\<close> that it was called with: the
  buffer acquired in the round does not reach the callback.
\<close>

lemma Track_onRead_loop_calls:
  "calledPtrs (trace (Track_onRead_loop w p q cbs))
     = calledPtrs (trace w) @ map (\<lambda>cb. (cb, p)) cbs"
proof (induction cbs arbitrary: w)
  case Nil
  show ?case by simp
next
  case (Cons cb cbs)
  obtain a w1 where g: "GetPacketAllocationFromPool w = (a, w1)"
    by (cases "GetPacketAllocationFromPool w")
  then have t1: "trace w1 = trace w @ [Acquired a]"
    using trace_GetPacketAllocationFromPool [of w] by simp
  show ?case
    by (simp add: g Let_def Cons.IH ResetPacketPoolAllocation_def t1 calledPtrs_append)
qed

lemma Track_onRead_calls:
  "calledPtrs (trace (Track_onRead w t p q))
     = calledPtrs (trace w) @ map (\<lambda>cb. (cb, p)) (onReadCallbacks t)"
  by (simp add: Track_onRead_def Track_onRead_loop_calls)


end
